theory Spec2Isabelle
  imports Main "HOL-Library.Multiset" "HOL-Library.List_Lexorder"
begin

unbundle bit_operations_syntax

section \<open>Characters and the \<open>std::string\<close> operations used by helper.cc\<close>

text \<open>
  A \<open>std::string\<close> is a list of bytes. The characters that cannot be written inside a
  string literal are named here.
\<close>

abbreviation BACKSLASH :: char where "BACKSLASH \<equiv> CHR 0x5C"
abbreviation QUOTE :: char where "QUOTE \<equiv> CHR 0x22"
abbreviation NEWLINE :: char where "NEWLINE \<equiv> CHR 0x0A"
abbreviation NUL :: char where "NUL \<equiv> CHR 0x00"

text \<open>\<open>line.starts_with(key)\<close>\<close>

fun starts_with :: "string \<Rightarrow> string \<Rightarrow> bool" where
  "starts_with line [] = True"
| "starts_with [] (k # key) = False"
| "starts_with (c # line) (k # key) = (c = k \<and> starts_with line key)"

text \<open>\<open>line.find(pattern)\<close>: the first position where the pattern occurs; \<open>None\<close> is \<open>npos\<close>.\<close>

fun str_find :: "string \<Rightarrow> string \<Rightarrow> nat option" where
  "str_find [] pat = (if pat = [] then Some 0 else None)"
| "str_find (c # line) pat =
     (if starts_with (c # line) pat then Some 0
      else map_option Suc (str_find line pat))"

text \<open>\<open>s.find_first_of(delimiter)\<close> for a single character.\<close>

fun find_first_of :: "string \<Rightarrow> char \<Rightarrow> nat option" where
  "find_first_of [] d = None"
| "find_first_of (c # s) d = (if c = d then Some 0 else map_option Suc (find_first_of s d))"

text \<open>\<open>output.erase(std::remove(output.begin(), output.end(), '\"'), output.end())\<close>\<close>

definition remove_quotes :: "string \<Rightarrow> string" where
  "remove_quotes s = filter (\<lambda>c. c \<noteq> QUOTE) s"

section \<open>Errors and files\<close>

text \<open>
  Every \<open>throw\<close> of the source is a value: \<open>std::runtime_error\<close> with its message,
  the \<open>std::out_of_range\<close> of \<open>std::vector::at\<close>, and the \<open>Glib::FileError\<close> of the
  \<open>Glib::Dir\<close> constructor.
\<close>

datatype error = Runtime_error string | Out_of_range | File_error

text \<open>
  The files on disk: a path that \<open>std::ifstream\<close> can open maps to its bytes.
\<close>

type_synonym filesystem = "string \<rightharpoonup> string"

text \<open>
  The loop \<open>while (std::getline(reg_file, line))\<close> sees one pair per iteration: the line
  without its newline, and what \<open>reg_file.eof()\<close> says inside the loop body. The eof bit
  is set when the line was ended by the end of the file and not by a newline. At the end
  of the file a read extracts nothing and fails, which ends the loop.
\<close>

lemma dropWhile_tail_shorter: "dropWhile P xs = y # ys \<Longrightarrow> length ys < length xs"
  using length_dropWhile_le [of P xs] by simp

function stream_lines :: "string \<Rightarrow> (string \<times> bool) list" where
  "stream_lines [] = []"
| "stream_lines (c # cs) =
     (case dropWhile (\<lambda>x. x \<noteq> NEWLINE) (c # cs) of
        [] \<Rightarrow> [(takeWhile (\<lambda>x. x \<noteq> NEWLINE) (c # cs), True)]
      | nl # rest \<Rightarrow> (takeWhile (\<lambda>x. x \<noteq> NEWLINE) (c # cs), False) # stream_lines rest)"
  by pat_completeness auto
termination
proof (relation "measure length")
  fix c :: char and cs nl rest
  assume "dropWhile (\<lambda>x. x \<noteq> NEWLINE) (c # cs) = nl # rest"
  from dropWhile_tail_shorter [OF this] show "(rest, c # cs) \<in> measure length"
    by simp
qed simp

definition file_lines :: "string \<Rightarrow> string list" where
  "file_lines content = map fst (stream_lines content)"

section \<open>Helper::split\<close>

text \<open>
  The argument is the part of \<open>s\<close> from \<open>start\<close> on; each round emits the text up to the
  next delimiter and goes on behind it, and the last round emits the rest.
\<close>

lemma find_first_of_less: "find_first_of s d = Some n \<Longrightarrow> n < length s"
  by (induction s arbitrary: n) (auto split: if_splits)

function split :: "string \<Rightarrow> char \<Rightarrow> string list" where
  "split s delimiter =
     (case find_first_of s delimiter of
        None \<Rightarrow> [s]
      | Some e \<Rightarrow> take e s # split (drop (e + 1) s) delimiter)"
  by pat_completeness auto
termination
  by (relation "measure (\<lambda>(s, d). length s)") (auto dest: find_first_of_less)

declare split.simps [simp del]

section \<open>Helper::unescape_reg_key_data\<close>

definition isdigit :: "char \<Rightarrow> bool" where
  "isdigit c = (48 \<le> (of_char c :: nat) \<and> (of_char c :: nat) \<le> 57)"

definition isxdigit :: "char \<Rightarrow> bool" where
  "isxdigit c = (isdigit c
     \<or> (97 \<le> (of_char c :: nat) \<and> (of_char c :: nat) \<le> 102)
     \<or> (65 \<le> (of_char c :: nat) \<and> (of_char c :: nat) \<le> 70))"

definition isoctal :: "char \<Rightarrow> bool" where
  "isoctal c = (48 \<le> (of_char c :: nat) \<and> (of_char c :: nat) \<le> 55)"

definition tolower :: "char \<Rightarrow> int" where
  "tolower c = (if 65 \<le> (of_char c :: int) \<and> (of_char c :: int) \<le> 90
                then of_char c + 32 else of_char c)"

text \<open>The lambda \<open>to_hex\<close>.\<close>

definition to_hex :: "char \<Rightarrow> int" where
  "to_hex ch = (if isdigit ch then of_char ch - 48 else tolower ch - 97 + 10)"

text \<open>
  The lambda \<open>wchar_to_utf8\<close>. A \<open>wchar_t\<close> is a signed 32-bit integer; the decoder only
  builds values up to \<open>0xffff\<close>, so it is an \<open>int\<close> here. Appending an \<open>int\<close> to a
  \<open>std::string\<close> keeps its low byte, which is what \<open>char_of\<close> does.
\<close>

definition wchar_to_utf8 :: "int \<Rightarrow> string" where
  "wchar_to_utf8 wc =
     (if 0 \<le> wc \<and> wc \<le> 0x7f then [char_of wc]
      else if 0x80 \<le> wc \<and> wc \<le> 0x7ff then
        [char_of (0xc0 OR drop_bit 6 wc), char_of (0x80 OR (wc AND 0x3f))]
      else if 0x800 \<le> wc \<and> wc \<le> 0xffff then
        [char_of (0xe0 OR drop_bit 12 wc), char_of (0x80 OR (drop_bit 6 wc AND 0x3f)),
         char_of (0x80 OR (wc AND 0x3f))]
      else if 0x10000 \<le> wc \<and> wc \<le> 0x1fffff then
        [char_of (0xf0 OR drop_bit 18 wc), char_of (0x80 OR (drop_bit 12 wc AND 0x3f)),
         char_of (0x80 OR (drop_bit 6 wc AND 0x3f)), char_of (0x80 OR (wc AND 0x3f))]
      else if 0x200000 \<le> wc \<and> wc \<le> 0x3ffffff then
        [char_of (0xf8 OR drop_bit 24 wc), char_of (0x80 OR (drop_bit 18 wc AND 0x3f)),
         char_of (0x80 OR (drop_bit 12 wc AND 0x3f)), char_of (0x80 OR (drop_bit 6 wc AND 0x3f)),
         char_of (0x80 OR (wc AND 0x3f))]
      else if 0x4000000 \<le> wc \<and> wc \<le> 0x7fffffff then
        [char_of (0xfc OR drop_bit 30 wc), char_of (0x80 OR (drop_bit 24 wc AND 0x3f)),
         char_of (0x80 OR (drop_bit 18 wc AND 0x3f)), char_of (0x80 OR (drop_bit 12 wc AND 0x3f)),
         char_of (0x80 OR (drop_bit 6 wc AND 0x3f)), char_of (0x80 OR (wc AND 0x3f))]
      else [])"

text \<open>
  The repeated \<open>if (std::isxdigit(*p)) wch = (wch * 16) + to_hex(*p++);\<close>: up to \<open>n\<close>
  further digits. Reading \<open>*p\<close> at the end of the text yields the terminating NUL, which
  is no digit.
\<close>

fun hex_digits :: "nat \<Rightarrow> int \<Rightarrow> string \<Rightarrow> int \<times> string" where
  "hex_digits 0 wch p = (wch, p)"
| "hex_digits (Suc n) wch [] = (wch, [])"
| "hex_digits (Suc n) wch (c # p) =
     (if isxdigit c then hex_digits n (wch * 16 + to_hex c) p else (wch, c # p))"

text \<open>The repeated \<open>if (*p >= '0' && *p <= '7') wch = (wch * 8) + (*p++ - '0');\<close>\<close>

fun octal_digits :: "nat \<Rightarrow> int \<Rightarrow> string \<Rightarrow> int \<times> string" where
  "octal_digits 0 wch p = (wch, p)"
| "octal_digits (Suc n) wch [] = (wch, [])"
| "octal_digits (Suc n) wch (c # p) =
     (if isoctal c then octal_digits n (wch * 8 + (of_char c - 48)) p else (wch, c # p))"

lemma hex_digits_length: "length (snd (hex_digits n wch p)) \<le> length p"
  by (induction n wch p rule: hex_digits.induct) (auto intro: le_SucI)

lemma octal_digits_length: "length (snd (octal_digits n wch p)) \<le> length p"
  by (induction n wch p rule: octal_digits.induct) (auto intro: le_SucI)

text \<open>
  The \<open>switch (*p)\<close> behind a backslash: \<open>e\<close> is \<open>*p\<close> and \<open>q\<close> the text behind it.
  The result is what is appended to \<open>dest\<close> and where \<open>p\<close> stands afterwards. An
  unrecognized escape leaves the switch and falls through to \<open>dest += *p++\<close>.
\<close>

definition escape_sequence :: "char \<Rightarrow> string \<Rightarrow> string \<times> string" where
  "escape_sequence e q =
     (if e = CHR ''a'' then ([CHR 0x07], q)
      else if e = CHR ''b'' then ([CHR 0x08], q)
      else if e = CHR ''e'' then ([CHR 0x1B], q)
      else if e = CHR ''f'' then ([CHR 0x0C], q)
      else if e = CHR ''n'' then ([CHR 0x0A], q)
      else if e = CHR ''r'' then ([CHR 0x0D], q)
      else if e = CHR ''t'' then ([CHR 0x09], q)
      else if e = CHR ''v'' then ([CHR 0x0B], q)
      else if e = CHR ''x'' then
        (case q of
           [] \<Rightarrow> (''x'', q)
         | h # r \<Rightarrow>
             if \<not> isxdigit h then (''x'', q)
             else (wchar_to_utf8 (fst (hex_digits 3 (to_hex h) r)),
                   snd (hex_digits 3 (to_hex h) r)))
      else if isoctal e then
        (wchar_to_utf8 (fst (octal_digits 2 (of_char e - 48) q)),
         snd (octal_digits 2 (of_char e - 48) q))
      else ([e], q))"

lemma escape_sequence_length: "length (snd (escape_sequence e q)) \<le> length q"
  using hex_digits_length [of 3 "to_hex (hd q)" "tl q"] octal_digits_length [of 2 "of_char e - 48" q]
  by (cases q) (auto simp: escape_sequence_def)

text \<open>
  The \<open>while (*p)\<close> loop. The first argument is the text from \<open>p\<close> up to the terminating
  NUL, the second is \<open>dest\<close>. A backslash that ends the text leaves the loop by \<open>break\<close>.
\<close>

function unescape_loop :: "string \<Rightarrow> string \<Rightarrow> string" where
  "unescape_loop [] dest = dest"
| "unescape_loop (c # p) dest =
     (if c = BACKSLASH then
        (case p of
           [] \<Rightarrow> dest
         | e # q \<Rightarrow>
             unescape_loop (snd (escape_sequence e q)) (dest @ fst (escape_sequence e q)))
      else unescape_loop p (dest @ [c]))"
  by pat_completeness auto
termination
proof (relation "measure (\<lambda>(p, dest). length p)", goal_cases)
  case (2 c p dest e q)
  show ?case
    using escape_sequence_length [of e q] 2 by simp
qed auto

text \<open>\<open>src.c_str()\<close> read up to the first NUL byte.\<close>

definition c_str :: "string \<Rightarrow> string" where
  "c_str src = takeWhile (\<lambda>c. c \<noteq> NUL) src"

definition unescape_reg_key_data :: "string \<Rightarrow> string" where
  "unescape_reg_key_data src = unescape_loop (c_str src) []"

text \<open>How many backslashes end a text.\<close>

definition trailing_backslashes :: "string \<Rightarrow> nat" where
  "trailing_backslashes s = length (takeWhile (\<lambda>c. c = BACKSLASH) (rev s))"

section \<open>The registry reader\<close>

text \<open>\<open>'"' + value_name + "\"="\<close>\<close>

definition value_pattern :: "string \<Rightarrow> string" where
  "value_pattern value_name = QUOTE # value_name @ [QUOTE, CHR ''='']"

text \<open>
  The loop of \<open>Helper::get_reg_value\<close> over the lines that are left; \<open>match\<close> is the
  flag of the source, and the result is \<open>output\<close>, empty unless a line is found.
\<close>

fun reg_value_loop :: "string \<Rightarrow> string \<Rightarrow> bool \<Rightarrow> string list \<Rightarrow> string" where
  "reg_value_loop key_name pat match [] = []"
| "reg_value_loop key_name pat match (line # rest) =
     (if \<not> match then reg_value_loop key_name pat (starts_with line key_name) rest
      else (case str_find line pat of
              Some pos \<Rightarrow> remove_quotes (drop (pos + length pat) line)
            | None \<Rightarrow> reg_value_loop key_name pat match rest))"

definition get_reg_value :: "filesystem \<Rightarrow> string \<Rightarrow> string \<Rightarrow> string \<Rightarrow> error + string" where
  "get_reg_value fs file_path key_name value_name =
     (case fs file_path of
        Some content \<Rightarrow>
          Inr (reg_value_loop key_name (value_pattern value_name) False (file_lines content))
      | None \<Rightarrow> Inl (Runtime_error ''Could not open registry file!''))"

text \<open>The loop of \<open>Helper::get_reg_keys\<close>; the last argument is \<open>keys\<close>.\<close>

fun reg_keys_loop :: "string \<Rightarrow> bool \<Rightarrow> (string \<times> bool) list \<Rightarrow> string list \<Rightarrow> string list" where
  "reg_keys_loop key_name match [] keys = keys"
| "reg_keys_loop key_name match ((line, eof) # rest) keys =
     (if \<not> match then reg_keys_loop key_name (starts_with line key_name) rest keys
      else if line = [] \<or> eof then keys
      else if \<not> starts_with line ''#'' then reg_keys_loop key_name match rest (keys @ [line])
      else reg_keys_loop key_name match rest keys)"

definition get_reg_keys :: "filesystem \<Rightarrow> string \<Rightarrow> string \<Rightarrow> error + string list" where
  "get_reg_keys fs file_path key_name =
     (case fs file_path of
        Some content \<Rightarrow> Inr (reg_keys_loop key_name False (stream_lines content) [])
      | None \<Rightarrow> Inl (Runtime_error ''Could not open registry file!''))"

text \<open>
  The loop of \<open>Helper::get_reg_keys_data_filter_ignore\<close>. Behind the test for the end
  of the section, \<open>line\<close> is overwritten by its unescaped form, which all later tests
  read; \<open>results.at(1)\<close> is guarded by \<open>results.size() > 1\<close>.
\<close>

fun reg_keys_data_loop ::
  "string \<Rightarrow> string \<Rightarrow> string \<Rightarrow> bool \<Rightarrow> (string \<times> bool) list \<Rightarrow> string list \<Rightarrow> string list" where
  "reg_keys_data_loop key_name key_value_filter key_name_ignore_filter match [] keys = keys"
| "reg_keys_data_loop key_name key_value_filter key_name_ignore_filter match ((line, eof) # rest) keys =
     (if \<not> match then
        reg_keys_data_loop key_name key_value_filter key_name_ignore_filter
          (starts_with line key_name) rest keys
      else if line = [] \<or> eof then keys
      else if \<not> starts_with (unescape_reg_key_data line) ''#''
              \<and> (key_value_filter = []
                   \<or> str_find (unescape_reg_key_data line) key_value_filter \<noteq> None)
              \<and> (key_name_ignore_filter = []
                   \<or> str_find (unescape_reg_key_data line) key_name_ignore_filter = None)
      then
        (if length (split (unescape_reg_key_data line) (CHR ''='')) > 1
         then reg_keys_data_loop key_name key_value_filter key_name_ignore_filter match rest
                (keys @ [remove_quotes (split (unescape_reg_key_data line) (CHR ''='') ! 1)])
         else reg_keys_data_loop key_name key_value_filter key_name_ignore_filter match rest keys)
      else reg_keys_data_loop key_name key_value_filter key_name_ignore_filter match rest keys)"

definition get_reg_keys_data_filter_ignore ::
  "filesystem \<Rightarrow> string \<Rightarrow> string \<Rightarrow> string \<Rightarrow> string \<Rightarrow> error + string list" where
  "get_reg_keys_data_filter_ignore fs file_path key_name key_value_filter key_name_ignore_filter =
     (case fs file_path of
        Some content \<Rightarrow>
          Inr (reg_keys_data_loop key_name key_value_filter key_name_ignore_filter False
                 (stream_lines content) [])
      | None \<Rightarrow> Inl (Runtime_error ''Could not open registry file!''))"

definition get_reg_keys_data_filter :: "filesystem \<Rightarrow> string \<Rightarrow> string \<Rightarrow> string \<Rightarrow> error + string list" where
  "get_reg_keys_data_filter fs file_path key_name key_value_filter =
     get_reg_keys_data_filter_ignore fs file_path key_name key_value_filter []"

definition get_reg_keys_data :: "filesystem \<Rightarrow> string \<Rightarrow> string \<Rightarrow> error + string list" where
  "get_reg_keys_data fs file_path key_name = get_reg_keys_data_filter fs file_path key_name []"

text \<open>\<open>Helper::get_reg_meta_data\<close>: every line of the file is searched.\<close>

definition meta_pattern :: "string \<Rightarrow> string" where
  "meta_pattern meta_value_name = CHR ''#'' # meta_value_name @ ''=''"

fun reg_meta_loop :: "string \<Rightarrow> string list \<Rightarrow> string" where
  "reg_meta_loop pat [] = []"
| "reg_meta_loop pat (line # rest) =
     (case str_find line pat of
        Some pos \<Rightarrow> remove_quotes (drop (pos + length pat) line)
      | None \<Rightarrow> reg_meta_loop pat rest)"

definition get_reg_meta_data :: "filesystem \<Rightarrow> string \<Rightarrow> string \<Rightarrow> error + string" where
  "get_reg_meta_data fs file_path meta_value_name =
     (case fs file_path of
        Some content \<Rightarrow> Inr (reg_meta_loop (meta_pattern meta_value_name) (file_lines content))
      | None \<Rightarrow> Inl (Runtime_error ''Could not open registry file!''))"

text \<open>
  The reading of "the text after the = with the surrounding quotes stripped" that the
  reader is compared with: one quote is taken off each end, and nothing inside.
\<close>

definition strip_surrounding_quotes :: "string \<Rightarrow> string" where
  "strip_surrounding_quotes s =
     (if 2 \<le> length s \<and> hd s = QUOTE \<and> last s = QUOTE then butlast (tl s) else s)"

section \<open>The table of Windows versions\<close>

datatype Windows =
    Windows20 | Windows30 | Windows31 | WindowsNT351 | WindowsNT40 | Windows95 | Windows98
  | WindowsME | Windows2000 | WindowsXP | Windows2003 | WindowsVista | Windows2008 | Windows7
  | Windows2008R2 | Windows8 | Windows81 | Windows10

record windows_version =
  windows :: Windows
  version :: string
  versionNumber :: string
  buildNumber :: string
  productType :: string

definition WindowsVersions :: "windows_version list" where
  "WindowsVersions =
    [\<lparr>windows = Windows10, version = ''win10'', versionNumber = ''10.0'', buildNumber = ''18362'', productType = ''WinNT''\<rparr>,
     \<lparr>windows = Windows81, version = ''win81'', versionNumber = ''6.3'', buildNumber = ''9600'', productType = ''WinNT''\<rparr>,
     \<lparr>windows = Windows8, version = ''win8'', versionNumber = ''6.2'', buildNumber = ''9200'', productType = ''WinNT''\<rparr>,
     \<lparr>windows = Windows2008R2, version = ''win2008r2'', versionNumber = ''6.1'', buildNumber = ''7601'', productType = ''ServerNT''\<rparr>,
     \<lparr>windows = Windows7, version = ''win7'', versionNumber = ''6.1'', buildNumber = ''7601'', productType = ''WinNT''\<rparr>,
     \<lparr>windows = Windows2008, version = ''win2008'', versionNumber = ''6.0'', buildNumber = ''6002'', productType = ''ServerNT''\<rparr>,
     \<lparr>windows = WindowsVista, version = ''vista'', versionNumber = ''6.0'', buildNumber = ''6002'', productType = ''WinNT''\<rparr>,
     \<lparr>windows = Windows2003, version = ''win2003'', versionNumber = ''5.2'', buildNumber = ''3790'', productType = ''ServerNT''\<rparr>,
     \<lparr>windows = WindowsXP, version = ''winxp64'', versionNumber = ''5.2'', buildNumber = ''3790'', productType = ''WinNT''\<rparr>,
     \<lparr>windows = WindowsXP, version = ''winxp'', versionNumber = ''5.1'', buildNumber = ''2600'', productType = ''WinNT''\<rparr>,
     \<lparr>windows = Windows2000, version = ''win2k'', versionNumber = ''5.0'', buildNumber = ''2195'', productType = ''WinNT''\<rparr>,
     \<lparr>windows = WindowsME, version = ''winme'', versionNumber = ''4.90'', buildNumber = ''3000'', productType = []\<rparr>,
     \<lparr>windows = Windows98, version = ''win98'', versionNumber = ''4.10'', buildNumber = ''2222'', productType = []\<rparr>,
     \<lparr>windows = Windows95, version = ''win95'', versionNumber = ''4.0'', buildNumber = ''950'', productType = []\<rparr>,
     \<lparr>windows = WindowsNT40, version = ''nt40'', versionNumber = ''4.0'', buildNumber = ''1381'', productType = ''WinNT''\<rparr>,
     \<lparr>windows = WindowsNT351, version = ''nt351'', versionNumber = ''3.51'', buildNumber = ''1057'', productType = ''WinNT''\<rparr>,
     \<lparr>windows = Windows31, version = ''win31'', versionNumber = ''3.10'', buildNumber = ''0'', productType = []\<rparr>,
     \<lparr>windows = Windows30, version = ''win30'', versionNumber = ''3.0'', buildNumber = ''0'', productType = []\<rparr>,
     \<lparr>windows = Windows20, version = ''win20'', versionNumber = ''2.0'', buildNumber = ''0'', productType = []\<rparr>]"

section \<open>Constants of helper.cc\<close>

definition SystemReg :: string where "SystemReg = ''system.reg''"
definition UserReg :: string where "UserReg = ''user.reg''"

text \<open>The separator of the key paths, two backslashes, as the registry files write it.\<close>

abbreviation SEP :: string where "SEP \<equiv> [BACKSLASH, BACKSLASH]"

definition RegKeyName9x :: string where
  "RegKeyName9x = ''[Software'' @ SEP @ ''Microsoft'' @ SEP @ ''Windows'' @ SEP @ ''CurrentVersion]''"
definition RegKeyNameNT :: string where
  "RegKeyNameNT = ''[Software'' @ SEP @ ''Microsoft'' @ SEP @ ''Windows NT'' @ SEP @ ''CurrentVersion]''"
definition RegKeyType :: string where
  "RegKeyType = ''[System'' @ SEP @ ''CurrentControlSet'' @ SEP @ ''Control'' @ SEP @ ''ProductOptions]''"
definition RegKeyWine :: string where
  "RegKeyWine = ''[Software'' @ SEP @ ''Wine]''"
definition RegKeyVirtualDesktop :: string where
  "RegKeyVirtualDesktop = ''[Software'' @ SEP @ ''Wine'' @ SEP @ ''Explorer]''"
definition RegKeyVirtualDesktopResolution :: string where
  "RegKeyVirtualDesktopResolution = ''[Software'' @ SEP @ ''Wine'' @ SEP @ ''Explorer'' @ SEP @ ''Desktops]''"

definition RegNameNTVersion :: string where "RegNameNTVersion = ''CurrentVersion''"
definition RegNameNTBuildNumber :: string where "RegNameNTBuildNumber = ''CurrentBuildNumber''"
definition RegName9xVersion :: string where "RegName9xVersion = ''VersionNumber''"
definition RegNameProductType :: string where "RegNameProductType = ''ProductType''"
definition RegNameWindowsVersion :: string where "RegNameWindowsVersion = ''Version''"
definition RegNameVirtualDesktopDefault :: string where "RegNameVirtualDesktopDefault = ''Default''"

section \<open>What helper.cc takes from outside\<close>

text \<open>
  The disk, the Glib functions, and the constants of the headers bottle_types.h and
  wine_defaults.h are parameters of the model:
  \<^item> \<open>files\<close>: what \<open>std::ifstream\<close> reads;
  \<^item> \<open>build_filename\<close>: \<open>Glib::build_filename\<close>;
  \<^item> \<open>dir_entries\<close>: the names \<open>Glib::Dir::read_name\<close> returns one after the other for a
    directory that can be opened;
  \<^item> \<open>is_dir\<close>: \<open>Glib::file_test(path, FILE_TEST_IS_DIR)\<close>;
  \<^item> \<open>DefaultBottleWineDir\<close>: the directory .wine in the home directory;
  \<^item> \<open>WindowsEnumSize\<close>: \<open>BottleTypes::WindowsEnumSize\<close>, the bound of the loops over the
    table. The source reads \<open>WindowsVersions[i]\<close> for every \<open>i\<close> below it, so it is
    meant to be at most the number of rows, 19;
  \<^item> \<open>WindowsOs\<close>: \<open>WineDefaults::WindowsOs\<close>, the default Windows version;
  \<^item> \<open>windows_to_string\<close>: \<open>BottleTypes::to_string\<close>.
\<close>

record platform =
  files :: filesystem
  build_filename :: "string \<Rightarrow> string \<Rightarrow> string"
  dir_entries :: "string \<rightharpoonup> string list"
  is_dir :: "string \<Rightarrow> bool"
  DefaultBottleWineDir :: string
  WindowsEnumSize :: nat
  WindowsOs :: Windows
  windows_to_string :: "Windows \<Rightarrow> string"

section \<open>Helper::get_windows_version\<close>

text \<open>\<open>prefix_path.find_last_of("/\\")\<close>: the last position of one of the characters.\<close>

fun find_last_of :: "string \<Rightarrow> string \<Rightarrow> nat option" where
  "find_last_of [] cs = None"
| "find_last_of (c # s) cs =
     (case find_last_of s cs of
        Some i \<Rightarrow> Some (Suc i)
      | None \<Rightarrow> if c \<in> set cs then Some 0 else None)"

definition get_bottle_dir_from_prefix :: "string \<Rightarrow> string" where
  "get_bottle_dir_from_prefix prefix_path =
     (case find_last_of prefix_path [CHR ''/'', BACKSLASH] of
        None \<Rightarrow> ''- Unknown -''
      | Some last_index \<Rightarrow>
          (let name = drop (last_index + 1) prefix_path in
           if find_first_of name (CHR ''.'') = Some 0 then drop 1 name else name))"

definition get_folder_name :: "string \<Rightarrow> string" where
  "get_folder_name prefix_path = get_bottle_dir_from_prefix prefix_path"

text \<open>The \<open>std::runtime_error\<close> thrown when no branch finds a version.\<close>

definition could_not_determine :: "platform \<Rightarrow> string \<Rightarrow> error" where
  "could_not_determine env prefix_path =
     Runtime_error (''Could not determine Windows version, we assume ''
       @ windows_to_string env (WindowsOs env)
       @ ''. Wine machine: '' @ get_folder_name prefix_path
       @ [NEWLINE, NEWLINE] @ ''Full location: '' @ prefix_path)"

text \<open>
  The four \<open>for\<close> loops over the table; the list is the rows from \<open>i\<close> on, below
  \<open>WindowsEnumSize\<close>. \<open>None\<close> means the loop ended without a \<open>return\<close>.
\<close>

fun find_version :: "string \<Rightarrow> windows_version list \<Rightarrow> Windows option" where
  "find_version win_version [] = None"
| "find_version win_version (w # ws) =
     (if version w = win_version then Some (windows w) else find_version win_version ws)"

fun find_nt :: "string \<Rightarrow> string \<Rightarrow> string \<Rightarrow> windows_version list \<Rightarrow> Windows option" where
  "find_nt ver build_number_nt type_nt [] = None"
| "find_nt ver build_number_nt type_nt (w # ws) =
     (if versionNumber w = ver \<and> buildNumber w = build_number_nt then
        (if type_nt \<noteq> [] then
           (if productType w = type_nt then Some (windows w)
            else find_nt ver build_number_nt type_nt ws)
         else Some (windows w))
      else find_nt ver build_number_nt type_nt ws)"

fun find_nt_fallback :: "string \<Rightarrow> string \<Rightarrow> windows_version list \<Rightarrow> Windows option" where
  "find_nt_fallback ver type_nt [] = None"
| "find_nt_fallback ver type_nt (w # ws) =
     (if versionNumber w = ver then
        (if type_nt \<noteq> [] then
           (if productType w = type_nt then Some (windows w)
            else find_nt_fallback ver type_nt ws)
         else Some (windows w))
      else find_nt_fallback ver type_nt ws)"

fun find_9x :: "string \<Rightarrow> string \<Rightarrow> windows_version list \<Rightarrow> Windows option" where
  "find_9x current_version current_build_number [] = None"
| "find_9x current_version current_build_number (w # ws) =
     (if versionNumber w = current_version \<and> buildNumber w = current_build_number
      then Some (windows w)
      else find_9x current_version current_build_number ws)"

text \<open>
  \<open>sizeof(version_list)\<close> is the size of the vector object, three pointers, whatever the
  vector holds; \<open>version_list.at(i)\<close> throws when \<open>i\<close> is not below the number of elements.
\<close>

definition sizeof_vector :: nat where
  "sizeof_vector = 24"

definition vector_at :: "'a list \<Rightarrow> nat \<Rightarrow> error + 'a" where
  "vector_at v i = (if i < length v then Inr (v ! i) else Inl Out_of_range)"

text \<open>The branch of the legacy key, from the split of its value on.\<close>

definition windows_version_9x :: "platform \<Rightarrow> string \<Rightarrow> error + Windows" where
  "windows_version_9x env ver =
     (let version_list = split ver (CHR ''.'') in
      case (if sizeof_vector \<ge> 2 then
              (case vector_at version_list 0 of
                 Inl e \<Rightarrow> Inl e
               | Inr major \<Rightarrow>
                   (case vector_at version_list 1 of
                      Inl e \<Rightarrow> Inl e
                    | Inr minor \<Rightarrow> Inr (major @ ''.'' @ minor)))
            else Inr []) of
        Inl e \<Rightarrow> Inl e
      | Inr current_version \<Rightarrow>
          (case (if sizeof_vector \<ge> 3 then vector_at version_list 2 else Inr []) of
             Inl e \<Rightarrow> Inl e
           | Inr current_build_number \<Rightarrow>
               (case find_9x current_version current_build_number
                       (take (WindowsEnumSize env) WindowsVersions) of
                  Some w \<Rightarrow> Inr w
                | None \<Rightarrow> Inr (WindowsOs env))))"

text \<open>The branch of the NT key, once version, build number and product type are read.\<close>

definition windows_version_nt :: "platform \<Rightarrow> string \<Rightarrow> string \<Rightarrow> string \<Rightarrow> string \<Rightarrow> error + Windows" where
  "windows_version_nt env prefix_path ver build_number_nt type_nt =
     (case find_nt ver build_number_nt type_nt (take (WindowsEnumSize env) WindowsVersions) of
        Some w \<Rightarrow> Inr w
      | None \<Rightarrow>
          (case find_nt_fallback ver type_nt (take (WindowsEnumSize env) WindowsVersions) of
             Some w \<Rightarrow> Inr w
           | None \<Rightarrow> Inl (could_not_determine env prefix_path)))"

text \<open>What follows the look at the user registry: the system registry.\<close>

definition windows_version_system :: "platform \<Rightarrow> string \<Rightarrow> error + Windows" where
  "windows_version_system env prefix_path =
     (let system_reg_file_path = build_filename env prefix_path SystemReg in
      case get_reg_value (files env) system_reg_file_path RegKeyNameNT RegNameNTVersion of
        Inl e \<Rightarrow> Inl e
      | Inr ver \<Rightarrow>
          if ver \<noteq> [] then
            (case get_reg_value (files env) system_reg_file_path RegKeyNameNT RegNameNTBuildNumber of
               Inl e \<Rightarrow> Inl e
             | Inr build_number_nt \<Rightarrow>
                 (case get_reg_value (files env) system_reg_file_path RegKeyType RegNameProductType of
                    Inl e \<Rightarrow> Inl e
                  | Inr type_nt \<Rightarrow>
                      windows_version_nt env prefix_path ver build_number_nt type_nt))
          else
            (case get_reg_value (files env) system_reg_file_path RegKeyName9x RegName9xVersion of
               Inl e \<Rightarrow> Inl e
             | Inr ver9x \<Rightarrow>
                 if ver9x \<noteq> [] then windows_version_9x env ver9x
                 else Inl (could_not_determine env prefix_path)))"

definition get_windows_version :: "platform \<Rightarrow> string \<Rightarrow> error + Windows" where
  "get_windows_version env prefix_path =
     (let user_reg_file_path = build_filename env prefix_path UserReg in
      case get_reg_value (files env) user_reg_file_path RegKeyWine RegNameWindowsVersion of
        Inl e \<Rightarrow> Inl e
      | Inr win_version \<Rightarrow>
          (case (if win_version \<noteq> []
                 then find_version win_version (take (WindowsEnumSize env) WindowsVersions)
                 else None) of
             Some w \<Rightarrow> Inr w
           | None \<Rightarrow> windows_version_system env prefix_path))"

section \<open>Helper::get_bottles_paths\<close>

text \<open>\<open>toupper(static_cast<unsigned char>(x))\<close> in the C locale.\<close>

definition toupper :: "char \<Rightarrow> nat" where
  "toupper c = (if 97 \<le> (of_char c :: nat) \<and> (of_char c :: nat) \<le> 122
                then of_char c - 32 else of_char c)"

definition case_insensitive_less :: "char \<Rightarrow> char \<Rightarrow> bool" where
  "case_insensitive_less x y = (toupper x < toupper y)"

text \<open>\<open>std::lexicographical_compare\<close> with a comparison of the elements.\<close>

fun lexicographical_compare :: "('a \<Rightarrow> 'a \<Rightarrow> bool) \<Rightarrow> 'a list \<Rightarrow> 'a list \<Rightarrow> bool" where
  "lexicographical_compare lt [] [] = False"
| "lexicographical_compare lt [] (b # bs) = True"
| "lexicographical_compare lt (a # as) [] = False"
| "lexicographical_compare lt (a # as) (b # bs) =
     (if lt a b then True
      else if lt b a then False
      else lexicographical_compare lt as bs)"

definition case_insensitive_compare :: "string \<Rightarrow> string \<Rightarrow> bool" where
  "case_insensitive_compare a b = lexicographical_compare case_insensitive_less a b"

text \<open>
  \<open>std::sort\<close> with a comparison: the standard promises a permutation of the input in
  which no element is before one it is less than, and leaves the order of equivalent
  elements open. The model sorts by insertion.
\<close>

fun insert_sorted :: "('a \<Rightarrow> 'a \<Rightarrow> bool) \<Rightarrow> 'a \<Rightarrow> 'a list \<Rightarrow> 'a list" where
  "insert_sorted cmp x [] = [x]"
| "insert_sorted cmp x (y # ys) =
     (if cmp x y then x # y # ys else y # insert_sorted cmp x ys)"

definition std_sort :: "('a \<Rightarrow> 'a \<Rightarrow> bool) \<Rightarrow> 'a list \<Rightarrow> 'a list" where
  "std_sort cmp xs = foldr (insert_sorted cmp) xs []"

text \<open>
  The \<open>while (!name.empty())\<close> loop: the names still to come from \<open>dir.read_name()\<close>, which
  returns the empty string when there is none left, and \<open>list\<close>.
\<close>

fun read_names_loop :: "platform \<Rightarrow> string \<Rightarrow> string list \<Rightarrow> string list \<Rightarrow> string list" where
  "read_names_loop env dir_path [] list = list"
| "read_names_loop env dir_path (name # names) list =
     (if name = [] then list
      else if is_dir env (build_filename env dir_path name)
      then read_names_loop env dir_path names (list @ [build_filename env dir_path name])
      else read_names_loop env dir_path names list)"

definition dir_exists :: "platform \<Rightarrow> string \<Rightarrow> bool" where
  "dir_exists env dir_path = is_dir env dir_path"

definition get_bottles_paths :: "platform \<Rightarrow> string \<Rightarrow> bool \<Rightarrow> error + string list" where
  "get_bottles_paths env dir_path display_default_wine_machine =
     (case dir_entries env dir_path of
        None \<Rightarrow> Inl File_error
      | Some names \<Rightarrow>
          (let list = std_sort case_insensitive_compare (read_names_loop env dir_path names [])
           in if display_default_wine_machine \<and> dir_exists env (DefaultBottleWineDir env)
              then Inr (list @ [DefaultBottleWineDir env])
              else Inr list))"

section \<open>Example bottles\<close>

text \<open>
  Registry files as Wine writes them, and a bottle made of a user registry and a system
  registry in the directory /bottle. The table has 19 rows, and the examples take that
  number for \<open>WindowsEnumSize\<close>.
\<close>

definition reg_line :: "string \<Rightarrow> string \<Rightarrow> string" where
  "reg_line name val = QUOTE # name @ [QUOTE, CHR ''='', QUOTE] @ val @ [QUOTE, NEWLINE]"

definition user_reg_plain :: string where
  "user_reg_plain = ''WINE REGISTRY Version 2'' @ [NEWLINE] @ ''#arch=win64'' @ [NEWLINE]"

definition system_reg_nt :: "string \<Rightarrow> string \<Rightarrow> string" where
  "system_reg_nt ver build =
     ''WINE REGISTRY Version 2'' @ [NEWLINE, NEWLINE]
     @ RegKeyNameNT @ '' 1600000000'' @ [NEWLINE]
     @ reg_line ''CurrentBuildNumber'' build
     @ reg_line ''CurrentVersion'' ver"

definition product_options :: "string \<Rightarrow> string" where
  "product_options t = [NEWLINE] @ RegKeyType @ '' 1600000000'' @ [NEWLINE] @ reg_line ''ProductType'' t"

definition system_reg_9x :: "string \<Rightarrow> string" where
  "system_reg_9x ver =
     ''WINE REGISTRY Version 2'' @ [NEWLINE, NEWLINE]
     @ RegKeyName9x @ '' 1600000000'' @ [NEWLINE]
     @ reg_line ''VersionNumber'' ver"

definition bottle :: "string \<Rightarrow> string \<Rightarrow> platform" where
  "bottle user_reg system_reg =
     \<lparr>files = [''/bottle/user.reg'' \<mapsto> user_reg, ''/bottle/system.reg'' \<mapsto> system_reg],
      build_filename = (\<lambda>dir name. dir @ ''/'' @ name),
      dir_entries = (\<lambda>dir. None),
      is_dir = (\<lambda>path. False),
      DefaultBottleWineDir = ''/home/user/.wine'',
      WindowsEnumSize = 19,
      WindowsOs = WindowsXP,
      windows_to_string = (\<lambda>w. ''Windows'')\<rparr>"

definition section_header :: "string \<Rightarrow> string" where
  "section_header key = key @ '' 1600000000''"

definition reg_entry :: "string \<Rightarrow> string \<Rightarrow> string" where
  "reg_entry name val = QUOTE # name @ [QUOTE, CHR ''='', QUOTE] @ val @ [QUOTE]"

definition unlines :: "string list \<Rightarrow> string" where
  "unlines ls = concat (map (\<lambda>l. l @ [NEWLINE]) ls)"

definition explorer_first_reg :: string where
  "explorer_first_reg = unlines
     [section_header RegKeyVirtualDesktop,
      reg_entry ''Desktop'' ''Default'',
      [],
      section_header RegKeyVirtualDesktopResolution,
      reg_entry ''Default'' ''1024x768'']"

definition desktops_first_reg :: string where
  "desktops_first_reg = unlines
     [section_header RegKeyVirtualDesktopResolution,
      reg_entry ''Default'' ''1024x768'',
      [],
      section_header RegKeyVirtualDesktop,
      reg_entry ''Desktop'' ''Default'']"

definition quoted_value :: string where
  "quoted_value = ''say '' @ [BACKSLASH, QUOTE] @ ''hi'' @ [BACKSLASH, QUOTE]"

definition quoted_value_reg :: string where
  "quoted_value_reg = unlines
     [section_header RegKeyWine,
      reg_entry ''Version'' ''win7'',
      reg_entry ''Title'' quoted_value]"

text \<open>A key path given without its closing bracket, as \<open>Helper::get_uninstaller\<close> builds one.\<close>

definition explorer_key_prefix :: string where
  "explorer_key_prefix = ''[Software'' @ SEP @ ''Wine'' @ SEP @ ''Explorer''"

text \<open>
  A directory of bottles: three sub-directories and a file, and the default bottle in the
  home directory.
\<close>

definition bottle_directory :: platform where
  "bottle_directory =
     \<lparr>files = Map.empty,
      build_filename = (\<lambda>dir name. dir @ ''/'' @ name),
      dir_entries = [''/prefixes'' \<mapsto> [''Zeta'', ''alpha'', ''notes.txt'', ''Beta'']],
      is_dir = (\<lambda>path. path \<in> set [''/prefixes/Zeta'', ''/prefixes/alpha'', ''/prefixes/Beta'',
                                     ''/home/user/.wine'']),
      DefaultBottleWineDir = ''/home/user/.wine'',
      WindowsEnumSize = 19,
      WindowsOs = WindowsXP,
      windows_to_string = (\<lambda>w. ''Windows'')\<rparr>"

text \<open>
  The reading of "the first entry whose version-number and build-number both match" that
  the resolver is compared with.
\<close>

definition first_version_build_match :: "string \<Rightarrow> string \<Rightarrow> windows_version list \<Rightarrow> Windows option" where
  "first_version_build_match ver build rows =
     map_option windows (find (\<lambda>w. versionNumber w = ver \<and> buildNumber w = build) rows)"

section \<open>The escape sequences of the decoder\<close>

text \<open>
  C6: \<open>unescape_reg_key_data\<close> decodes the escape sequences
  backslash-n, backslash-t, backslash-x41 and backslash-101 to newline, tab, "A" and "A",
  and the unrecognized escape backslash-q to the following character q alone.
\<close>

theorem unescape_reg_key_data_escapes:
  "unescape_reg_key_data [BACKSLASH, CHR ''n''] = [NEWLINE]
   \<and> unescape_reg_key_data [BACKSLASH, CHR ''t''] = [CHR 0x09]
   \<and> unescape_reg_key_data [BACKSLASH, CHR ''x'', CHR ''4'', CHR ''1''] = ''A''
   \<and> unescape_reg_key_data [BACKSLASH, CHR ''1'', CHR ''0'', CHR ''1''] = ''A''
   \<and> unescape_reg_key_data [BACKSLASH, CHR ''q''] = ''q''"
  by code_simp

section \<open>A backslash at the end of the input\<close>

lemma trailing_backslashes_all: "\<forall>x\<in>set s. x = BACKSLASH \<Longrightarrow> trailing_backslashes s = length s"
  unfolding trailing_backslashes_def
  by (metis (mono_tags, lifting) length_rev set_rev takeWhile_eq_all_conv)

lemma trailing_backslashes_Cons:
  "trailing_backslashes (c # s) =
     (if c = BACKSLASH \<and> (\<forall>x\<in>set s. x = BACKSLASH) then Suc (length s) else trailing_backslashes s)"
  using trailing_backslashes_all [of s]
  by (auto simp: trailing_backslashes_def takeWhile_append)

lemma trailing_backslashes_other:
  "c \<noteq> BACKSLASH \<Longrightarrow> trailing_backslashes (c # s) = trailing_backslashes s"
  by (simp add: trailing_backslashes_Cons)

lemma trailing_backslashes_escape:
  "even (trailing_backslashes (BACKSLASH # e # s)) = even (trailing_backslashes s)"
  by (auto simp: trailing_backslashes_Cons trailing_backslashes_all)

lemma not_isxdigit_backslash: "\<not> isxdigit BACKSLASH"
  by (simp add: isxdigit_def isdigit_def)

lemma not_isoctal_backslash: "\<not> isoctal BACKSLASH"
  by (simp add: isoctal_def)

lemma isxdigit_not_backslash: "isxdigit c \<Longrightarrow> c \<noteq> BACKSLASH"
  using not_isxdigit_backslash by auto

lemma isoctal_not_backslash: "isoctal c \<Longrightarrow> c \<noteq> BACKSLASH"
  using not_isoctal_backslash by auto

lemma hex_digits_append:
  "hex_digits n wch (p @ [BACKSLASH]) =
     (fst (hex_digits n wch p), snd (hex_digits n wch p) @ [BACKSLASH])"
  by (induction n wch p rule: hex_digits.induct) (auto simp: not_isxdigit_backslash)

lemma octal_digits_append:
  "octal_digits n wch (p @ [BACKSLASH]) =
     (fst (octal_digits n wch p), snd (octal_digits n wch p) @ [BACKSLASH])"
  by (induction n wch p rule: octal_digits.induct) (auto simp: not_isoctal_backslash)

lemma hex_digits_trailing:
  "trailing_backslashes (snd (hex_digits n wch p)) = trailing_backslashes p"
proof (induction n wch p rule: hex_digits.induct)
  case (3 n wch c p)
  then show ?case
    by (simp add: trailing_backslashes_other isxdigit_not_backslash)
qed simp_all

lemma octal_digits_trailing:
  "trailing_backslashes (snd (octal_digits n wch p)) = trailing_backslashes p"
proof (induction n wch p rule: octal_digits.induct)
  case (3 n wch c p)
  then show ?case
    by (simp add: trailing_backslashes_other isoctal_not_backslash)
qed simp_all

lemma escape_sequence_append:
  "escape_sequence e (q @ [BACKSLASH]) =
     (fst (escape_sequence e q), snd (escape_sequence e q) @ [BACKSLASH])"
proof (cases "e = CHR ''x''")
  case True
  then show ?thesis
    by (cases q) (simp_all add: escape_sequence_def hex_digits_append not_isxdigit_backslash)
next
  case False
  then show ?thesis
    by (simp add: escape_sequence_def octal_digits_append)
qed

lemma escape_sequence_trailing:
  "trailing_backslashes (snd (escape_sequence e q)) = trailing_backslashes q"
  by (cases q)
     (simp_all add: escape_sequence_def hex_digits_trailing octal_digits_trailing
        trailing_backslashes_other isxdigit_not_backslash)

lemma unescape_loop_trailing_backslash:
  "even (trailing_backslashes p) \<Longrightarrow>
     unescape_loop (p @ [BACKSLASH]) dest = unescape_loop p dest"
proof (induction p dest rule: unescape_loop.induct)
  case (1 dest)
  show ?case by simp
next
  case (2 c p dest)
  show ?case
  proof (cases "c = BACKSLASH")
    case False
    with 2 show ?thesis by (simp add: trailing_backslashes_other)
  next
    case True
    show ?thesis
    proof (cases p)
      case Nil
      with True 2(3) show ?thesis by (simp add: trailing_backslashes_Cons)
    next
      case (Cons e q)
      have "even (trailing_backslashes (snd (escape_sequence e q)))"
        using 2(3) True Cons by (simp add: trailing_backslashes_escape escape_sequence_trailing)
      from 2(1) [OF True Cons this] show ?thesis
        using True Cons by (simp add: escape_sequence_append)
    qed
  qed
qed

text \<open>
  C7: \<open>unescape_reg_key_data\<close> is a total function: the loop ends for every input, by
  the length of the text still to read, and no branch of it throws. An input that ends in
  a lone backslash, one that is not itself escaped by a backslash before it (the text in
  front ends in an even number of backslashes), decodes to the same output as the input
  without that last backslash.
\<close>

theorem unescape_reg_key_data_trailing_backslash:
  "even (trailing_backslashes s) \<Longrightarrow>
     unescape_reg_key_data (s @ [BACKSLASH]) = unescape_reg_key_data s"
proof (cases "NUL \<in> set s")
  case True
  then show ?thesis
    by (auto simp: unescape_reg_key_data_def c_str_def takeWhile_append)
next
  case False
  assume ev: "even (trailing_backslashes s)"
  from False have all: "\<forall>c\<in>set s. c \<noteq> NUL"
    by auto
  then have cs: "c_str s = s"
    unfolding c_str_def by (simp add: takeWhile_eq_all_conv)
  from all have cs': "c_str (s @ [BACKSLASH]) = s @ [BACKSLASH]"
    unfolding c_str_def by (simp add: takeWhile_eq_all_conv)
  show ?thesis
    unfolding unescape_reg_key_data_def cs cs'
    by (rule unescape_loop_trailing_backslash [OF ev])
qed

theorem unescape_reg_key_data_trailing_backslash_witness:
  "even (trailing_backslashes ''ab'')
   \<and> unescape_reg_key_data (''ab'' @ [BACKSLASH]) = unescape_reg_key_data ''ab''
   \<and> unescape_reg_key_data ''ab'' = ''ab''"
proof -
  have h: "even (trailing_backslashes ''ab'')" by code_simp
  have "unescape_reg_key_data ''ab'' = ''ab''" by code_simp
  with h unescape_reg_key_data_trailing_backslash [OF h] show ?thesis by simp
qed
section \<open>The version resolver\<close>

lemma find_nt_append:
  "find_nt ver build type_nt rows = Some w \<Longrightarrow> find_nt ver build type_nt (rows @ others) = Some w"
  by (induction rows) (auto split: if_splits)

lemma take_WindowsVersions:
  "k \<le> n \<Longrightarrow> take n WindowsVersions = take k WindowsVersions @ take (n - k) (drop k WindowsVersions)"
  using take_add [of k "n - k" WindowsVersions] by simp

lemma find_nt_win2008r2:
  assumes "4 \<le> n"
  shows "find_nt ''6.1'' ''7601'' [] (take n WindowsVersions) = Some Windows2008R2"
proof -
  have "find_nt ''6.1'' ''7601'' [] (take 4 WindowsVersions) = Some Windows2008R2"
    by code_simp
  then show ?thesis
    using take_WindowsVersions [OF assms] find_nt_append by simp
qed

text \<open>
  C1, as amended: for a bottle whose user registry has no Wine Version value and whose
  system registry reports NT CurrentVersion "6.1" and CurrentBuildNumber "7601" with no
  ProductType value, \<open>get_windows_version\<close> returns Windows2008R2, the first row of
  the table with that version number and build number (it stands before the row of
  Windows7), as soon as the loop bound \<open>WindowsEnumSize\<close> reaches that row.
\<close>

theorem get_windows_version_no_product_type:
  assumes "get_reg_value (files env) (build_filename env prefix_path UserReg)
             RegKeyWine RegNameWindowsVersion = Inr []"
    and "get_reg_value (files env) (build_filename env prefix_path SystemReg)
             RegKeyNameNT RegNameNTVersion = Inr ''6.1''"
    and "get_reg_value (files env) (build_filename env prefix_path SystemReg)
             RegKeyNameNT RegNameNTBuildNumber = Inr ''7601''"
    and "get_reg_value (files env) (build_filename env prefix_path SystemReg)
             RegKeyType RegNameProductType = Inr []"
    and "4 \<le> WindowsEnumSize env"
  shows "get_windows_version env prefix_path = Inr Windows2008R2"
  using assms(1-4) find_nt_win2008r2 [OF assms(5)]
  by (simp add: get_windows_version_def windows_version_system_def windows_version_nt_def)

theorem get_windows_version_no_product_type_witness:
  "get_windows_version (bottle user_reg_plain (system_reg_nt ''6.1'' ''7601'')) ''/bottle''
     = Inr Windows2008R2"
proof (rule get_windows_version_no_product_type)
  let ?env = "bottle user_reg_plain (system_reg_nt ''6.1'' ''7601'')"
  show "get_reg_value (files ?env) (build_filename ?env ''/bottle'' UserReg)
          RegKeyWine RegNameWindowsVersion = Inr []"
    by code_simp
  show "get_reg_value (files ?env) (build_filename ?env ''/bottle'' SystemReg)
          RegKeyNameNT RegNameNTVersion = Inr ''6.1''"
    by code_simp
  show "get_reg_value (files ?env) (build_filename ?env ''/bottle'' SystemReg)
          RegKeyNameNT RegNameNTBuildNumber = Inr ''7601''"
    by code_simp
  show "get_reg_value (files ?env) (build_filename ?env ''/bottle'' SystemReg)
          RegKeyType RegNameProductType = Inr []"
    by code_simp
  show "4 \<le> WindowsEnumSize ?env"
    by code_simp
qed

theorem get_windows_version_no_product_type_counterexample:
  "get_reg_value (files (bottle user_reg_plain (system_reg_nt ''6.1'' ''7601'')))
      ''/bottle/user.reg'' RegKeyWine RegNameWindowsVersion = Inr []
   \<and> get_reg_value (files (bottle user_reg_plain (system_reg_nt ''6.1'' ''7601'')))
      ''/bottle/system.reg'' RegKeyNameNT RegNameNTVersion = Inr ''6.1''
   \<and> get_reg_value (files (bottle user_reg_plain (system_reg_nt ''6.1'' ''7601'')))
      ''/bottle/system.reg'' RegKeyNameNT RegNameNTBuildNumber = Inr ''7601''
   \<and> get_reg_value (files (bottle user_reg_plain (system_reg_nt ''6.1'' ''7601'')))
      ''/bottle/system.reg'' RegKeyType RegNameProductType = Inr []
   \<and> get_windows_version (bottle user_reg_plain (system_reg_nt ''6.1'' ''7601'')) ''/bottle''
      \<noteq> Inr Windows7"
  by code_simp


lemma find_nt_none:
  "type_nt \<noteq> [] \<Longrightarrow>
   \<forall>w\<in>set rows. \<not> (versionNumber w = ver \<and> buildNumber w = build \<and> productType w = type_nt) \<Longrightarrow>
   find_nt ver build type_nt rows = None"
  by (induction rows) auto

lemma find_nt_fallback_find:
  "type_nt \<noteq> [] \<Longrightarrow>
   find_nt_fallback ver type_nt rows =
     map_option windows (find (\<lambda>w. versionNumber w = ver \<and> productType w = type_nt) rows)"
  by (induction rows) auto

text \<open>
  C2, as amended: in the NT branch, when a ProductType value is present and no row
  matches version number, build number and product type together,
  \<open>get_windows_version\<close> returns the first row whose version number and product type
  match, whatever its build number, and fails with the "Could not determine Windows
  version" error when there is no such row.
\<close>

theorem get_windows_version_product_type_mismatch:
  assumes "get_reg_value (files env) (build_filename env prefix_path UserReg)
             RegKeyWine RegNameWindowsVersion = Inr []"
    and "get_reg_value (files env) (build_filename env prefix_path SystemReg)
             RegKeyNameNT RegNameNTVersion = Inr ver"
    and "get_reg_value (files env) (build_filename env prefix_path SystemReg)
             RegKeyNameNT RegNameNTBuildNumber = Inr build"
    and "get_reg_value (files env) (build_filename env prefix_path SystemReg)
             RegKeyType RegNameProductType = Inr type_nt"
    and "ver \<noteq> []" and "type_nt \<noteq> []"
    and "\<forall>w\<in>set (take (WindowsEnumSize env) WindowsVersions).
           \<not> (versionNumber w = ver \<and> buildNumber w = build \<and> productType w = type_nt)"
  shows "get_windows_version env prefix_path =
           (case find (\<lambda>w. versionNumber w = ver \<and> productType w = type_nt)
                   (take (WindowsEnumSize env) WindowsVersions) of
              Some w \<Rightarrow> Inr (windows w)
            | None \<Rightarrow> Inl (could_not_determine env prefix_path))"
  using assms(1-6) find_nt_none [OF assms(6,7)] find_nt_fallback_find [OF assms(6)]
  by (simp add: get_windows_version_def windows_version_system_def windows_version_nt_def
      split: option.splits)

theorem get_windows_version_product_type_mismatch_witness:
  "get_windows_version
     (bottle user_reg_plain (system_reg_nt ''6.1'' ''7601'' @ product_options ''LanmanNT'')) ''/bottle''
   = Inl (could_not_determine
     (bottle user_reg_plain (system_reg_nt ''6.1'' ''7601'' @ product_options ''LanmanNT'')) ''/bottle'')
   \<and> get_windows_version
     (bottle user_reg_plain (system_reg_nt ''4.0'' ''950'' @ product_options ''WinNT'')) ''/bottle''
   = Inr WindowsNT40"
proof
  let ?env = "bottle user_reg_plain (system_reg_nt ''6.1'' ''7601'' @ product_options ''LanmanNT'')"
  have "get_windows_version ?env ''/bottle'' =
          (case find (\<lambda>w. versionNumber w = ''6.1'' \<and> productType w = ''LanmanNT'')
                  (take (WindowsEnumSize ?env) WindowsVersions) of
             Some w \<Rightarrow> Inr (windows w)
           | None \<Rightarrow> Inl (could_not_determine ?env ''/bottle''))"
  proof (rule get_windows_version_product_type_mismatch [where build = "''7601''"])
    show "get_reg_value (files ?env) (build_filename ?env ''/bottle'' UserReg)
            RegKeyWine RegNameWindowsVersion = Inr []"
      by code_simp
    show "get_reg_value (files ?env) (build_filename ?env ''/bottle'' SystemReg)
            RegKeyNameNT RegNameNTVersion = Inr ''6.1''"
      by code_simp
    show "get_reg_value (files ?env) (build_filename ?env ''/bottle'' SystemReg)
            RegKeyNameNT RegNameNTBuildNumber = Inr ''7601''"
      by code_simp
    show "get_reg_value (files ?env) (build_filename ?env ''/bottle'' SystemReg)
            RegKeyType RegNameProductType = Inr ''LanmanNT''"
      by code_simp
    show "\<forall>w\<in>set (take (WindowsEnumSize ?env) WindowsVersions).
            \<not> (versionNumber w = ''6.1'' \<and> buildNumber w = ''7601'' \<and> productType w = ''LanmanNT'')"
      by code_simp
  qed simp_all
  also have "\<dots> = Inl (could_not_determine ?env ''/bottle'')"
    by code_simp
  finally show "get_windows_version ?env ''/bottle'' = Inl (could_not_determine ?env ''/bottle'')" .
next
  let ?env = "bottle user_reg_plain (system_reg_nt ''4.0'' ''950'' @ product_options ''WinNT'')"
  have "get_windows_version ?env ''/bottle'' =
          (case find (\<lambda>w. versionNumber w = ''4.0'' \<and> productType w = ''WinNT'')
                  (take (WindowsEnumSize ?env) WindowsVersions) of
             Some w \<Rightarrow> Inr (windows w)
           | None \<Rightarrow> Inl (could_not_determine ?env ''/bottle''))"
  proof (rule get_windows_version_product_type_mismatch [where build = "''950''"])
    show "get_reg_value (files ?env) (build_filename ?env ''/bottle'' UserReg)
            RegKeyWine RegNameWindowsVersion = Inr []"
      by code_simp
    show "get_reg_value (files ?env) (build_filename ?env ''/bottle'' SystemReg)
            RegKeyNameNT RegNameNTVersion = Inr ''4.0''"
      by code_simp
    show "get_reg_value (files ?env) (build_filename ?env ''/bottle'' SystemReg)
            RegKeyNameNT RegNameNTBuildNumber = Inr ''950''"
      by code_simp
    show "get_reg_value (files ?env) (build_filename ?env ''/bottle'' SystemReg)
            RegKeyType RegNameProductType = Inr ''WinNT''"
      by code_simp
    show "\<forall>w\<in>set (take (WindowsEnumSize ?env) WindowsVersions).
            \<not> (versionNumber w = ''4.0'' \<and> buildNumber w = ''950'' \<and> productType w = ''WinNT'')"
      by code_simp
  qed simp_all
  also have "\<dots> = Inr WindowsNT40"
    by code_simp
  finally show "get_windows_version ?env ''/bottle'' = Inr WindowsNT40" .
qed

theorem get_windows_version_product_type_mismatch_counterexample:
  "get_reg_value
     (files (bottle user_reg_plain (system_reg_nt ''6.1'' ''7601'' @ product_options ''LanmanNT'')))
     ''/bottle/system.reg'' RegKeyType RegNameProductType = Inr ''LanmanNT''
   \<and> first_version_build_match ''6.1'' ''7601'' (take 19 WindowsVersions) = Some Windows2008R2
   \<and> get_windows_version
       (bottle user_reg_plain (system_reg_nt ''6.1'' ''7601'' @ product_options ''LanmanNT'')) ''/bottle''
     \<noteq> Inr Windows2008R2"
  by code_simp

text \<open>
  C3: a bottle without the NT version key and with the legacy value VersionNumber "4.90".
  The claim promises a row of the table or the default version and no error; the source
  tests \<open>sizeof(version_list) >= 3\<close>, which always holds, and \<open>version_list.at(2)\<close>
  throws \<open>std::out_of_range\<close> on the two components.
\<close>

theorem get_windows_version_9x_major_minor_only:
  "get_reg_value (files (bottle user_reg_plain (system_reg_9x ''4.90'')))
     ''/bottle/system.reg'' RegKeyNameNT RegNameNTVersion = Inr []
   \<and> get_reg_value (files (bottle user_reg_plain (system_reg_9x ''4.90'')))
     ''/bottle/system.reg'' RegKeyName9x RegName9xVersion = Inr ''4.90''
   \<and> get_windows_version (bottle user_reg_plain (system_reg_9x ''4.90'')) ''/bottle''
     = Inl Out_of_range"
  by code_simp


section \<open>Properties of the registry reader\<close>

lemma starts_with_append: "starts_with (key @ suffix) key"
  by (induction key) auto

lemma starts_with_self: "starts_with key key"
  using starts_with_append [of key "[]"] by simp

lemma str_find_at_start: "str_find (pat @ s) pat = Some 0"
  by (cases pat; cases s) (simp_all add: starts_with_append starts_with_self)

lemma reg_value_loop_skip:
  "\<forall>l\<in>set pre. \<not> starts_with l key \<Longrightarrow>
   reg_value_loop key pat False (pre @ rest) = reg_value_loop key pat False rest"
  by (induction pre) auto

lemma reg_value_loop_body:
  "\<forall>l\<in>set body. str_find l pat = None \<Longrightarrow>
   reg_value_loop key pat True (body @ rest) = reg_value_loop key pat True rest"
  by (induction body) auto

lemma reg_value_loop_absent:
  "\<forall>l\<in>set ls. str_find l pat = None \<Longrightarrow> reg_value_loop key pat match ls = []"
  by (induction ls arbitrary: match) auto

lemma reg_value_loop_no_key:
  "\<forall>l\<in>set ls. \<not> starts_with l key \<Longrightarrow> reg_value_loop key pat False ls = []"
  by (induction ls) auto

lemma reg_value_loop_found:
  assumes "\<forall>l\<in>set pre. \<not> starts_with l key" and "starts_with hdr key"
    and "\<forall>l\<in>set body. str_find l pat = None" and "str_find ln pat = Some pos"
  shows "reg_value_loop key pat False (pre @ hdr # body @ ln # post)
           = remove_quotes (drop (pos + length pat) ln)"
  using assms by (simp add: reg_value_loop_skip reg_value_loop_body)

lemma reg_keys_loop_skip:
  "\<forall>l\<in>set pre. \<not> starts_with (fst l) key \<Longrightarrow>
   reg_keys_loop key False (pre @ rest) keys = reg_keys_loop key False rest keys"
  by (induction pre) auto

lemma reg_keys_data_loop_skip:
  "\<forall>l\<in>set pre. \<not> starts_with (fst l) key \<Longrightarrow>
   reg_keys_data_loop key flt ign False (pre @ rest) keys
     = reg_keys_data_loop key flt ign False rest keys"
  by (induction pre) auto

lemma reg_meta_loop_absent:
  "\<forall>l\<in>set ls. str_find l pat = None \<Longrightarrow> reg_meta_loop pat ls = []"
  by (induction ls) auto

text \<open>
  C4, as amended: in a readable registry file, let the first line that starts with the
  key be followed by lines that do not contain the pattern "Name"= and then by a line
  "Name"="Value". Then \<open>get_reg_value\<close> returns Value with every double quote in it
  removed, so Value itself when it contains none. When no line behind the line of the key
  contains the pattern, it returns the empty string and no error.
\<close>

theorem get_reg_value_after_key:
  assumes "fs file_path = Some content"
    and "file_lines content = pre @ hdr # rest"
    and "\<forall>l\<in>set pre. \<not> starts_with l key_name"
    and "starts_with hdr key_name"
  shows "(\<forall>body val post.
            rest = body @ (value_pattern value_name @ QUOTE # val @ [QUOTE]) # post
            \<and> (\<forall>l\<in>set body. str_find l (value_pattern value_name) = None)
            \<longrightarrow> get_reg_value fs file_path key_name value_name
                  = Inr (filter (\<lambda>c. c \<noteq> QUOTE) val))
         \<and> ((\<forall>l\<in>set rest. str_find l (value_pattern value_name) = None)
            \<longrightarrow> get_reg_value fs file_path key_name value_name = Inr [])"
proof (intro conjI allI impI)
  fix body val post
  assume h: "rest = body @ (value_pattern value_name @ QUOTE # val @ [QUOTE]) # post
             \<and> (\<forall>l\<in>set body. str_find l (value_pattern value_name) = None)"
  have "reg_value_loop key_name (value_pattern value_name) False
          (pre @ hdr # body @ (value_pattern value_name @ QUOTE # val @ [QUOTE]) # post)
        = remove_quotes (drop (0 + length (value_pattern value_name))
            (value_pattern value_name @ QUOTE # val @ [QUOTE]))"
    using assms(3,4) h by (intro reg_value_loop_found) (simp_all add: str_find_at_start)
  then show "get_reg_value fs file_path key_name value_name = Inr (filter (\<lambda>c. c \<noteq> QUOTE) val)"
    using assms(1,2) h by (simp add: get_reg_value_def remove_quotes_def)
next
  assume "\<forall>l\<in>set rest. str_find l (value_pattern value_name) = None"
  then show "get_reg_value fs file_path key_name value_name = Inr []"
    using assms by (simp add: get_reg_value_def reg_value_loop_skip reg_value_loop_absent)
qed

theorem get_reg_value_after_key_witness:
  "get_reg_value [''/bottle/user.reg'' \<mapsto> quoted_value_reg] ''/bottle/user.reg'' RegKeyWine ''Title''
     = Inr (''say '' @ [BACKSLASH] @ ''hi'' @ [BACKSLASH])
   \<and> get_reg_value [''/bottle/user.reg'' \<mapsto> quoted_value_reg] ''/bottle/user.reg'' RegKeyWine ''Desktop''
     = Inr []"
proof -
  let ?fs = "[''/bottle/user.reg'' \<mapsto> quoted_value_reg]"
  let ?rest = "[reg_entry ''Version'' ''win7'', reg_entry ''Title'' quoted_value]"
  have T: "(\<forall>body val post.
              ?rest = body @ (value_pattern name @ QUOTE # val @ [QUOTE]) # post
              \<and> (\<forall>l\<in>set body. str_find l (value_pattern name) = None)
              \<longrightarrow> get_reg_value ?fs ''/bottle/user.reg'' RegKeyWine name
                    = Inr (filter (\<lambda>c. c \<noteq> QUOTE) val))
           \<and> ((\<forall>l\<in>set ?rest. str_find l (value_pattern name) = None)
              \<longrightarrow> get_reg_value ?fs ''/bottle/user.reg'' RegKeyWine name = Inr [])" for name
  proof (rule get_reg_value_after_key [where pre = "[]" and hdr = "section_header RegKeyWine"
        and content = quoted_value_reg])
    show "?fs ''/bottle/user.reg'' = Some quoted_value_reg" by simp
    show "file_lines quoted_value_reg = [] @ section_header RegKeyWine # ?rest"
      by code_simp
    show "\<forall>l\<in>set ([] :: string list). \<not> starts_with l RegKeyWine" by simp
    show "starts_with (section_header RegKeyWine) RegKeyWine" by code_simp
  qed
  have a: "?rest = [reg_entry ''Version'' ''win7'']
                     @ (value_pattern ''Title'' @ QUOTE # quoted_value @ [QUOTE]) # []
           \<and> (\<forall>l\<in>set [reg_entry ''Version'' ''win7'']. str_find l (value_pattern ''Title'') = None)"
    by code_simp
  have b: "\<forall>l\<in>set ?rest. str_find l (value_pattern ''Desktop'') = None"
    by code_simp
  have c: "filter (\<lambda>c. c \<noteq> QUOTE) quoted_value = ''say '' @ [BACKSLASH] @ ''hi'' @ [BACKSLASH]"
    by code_simp
  from T [of "''Title''"] a
  have "get_reg_value ?fs ''/bottle/user.reg'' RegKeyWine ''Title''
          = Inr (filter (\<lambda>c. c \<noteq> QUOTE) quoted_value)"
    by blast
  moreover from T [of "''Desktop''"] b
  have "get_reg_value ?fs ''/bottle/user.reg'' RegKeyWine ''Desktop'' = Inr []"
    by blast
  ultimately show ?thesis using c by simp
qed

theorem get_reg_value_quotes_counterexample:
  "file_lines quoted_value_reg ! 2 = value_pattern ''Title'' @ QUOTE # quoted_value @ [QUOTE]
   \<and> strip_surrounding_quotes (QUOTE # quoted_value @ [QUOTE]) = quoted_value
   \<and> get_reg_value [''/bottle/user.reg'' \<mapsto> quoted_value_reg] ''/bottle/user.reg'' RegKeyWine ''Title''
       \<noteq> Inr quoted_value"
  by code_simp

text \<open>
  C9: once a line has matched the key, the scan of \<open>get_reg_value\<close> for the pattern
  "value_name"= does not end with the section of the key. It goes past a blank line and
  past the lines behind it, headers of other sections among them, and returns the value
  of the first line anywhere behind the header that contains the pattern.
\<close>

theorem get_reg_value_scans_past_blank_line:
  assumes "fs file_path = Some content"
    and "file_lines content = pre @ hdr # sec @ [] # later @ ln # post"
    and "\<forall>l\<in>set pre. \<not> starts_with l key_name"
    and "starts_with hdr key_name"
    and "\<forall>l\<in>set sec. str_find l (value_pattern value_name) = None"
    and "\<forall>l\<in>set later. str_find l (value_pattern value_name) = None"
    and "str_find ln (value_pattern value_name) = Some pos"
  shows "get_reg_value fs file_path key_name value_name
           = Inr (remove_quotes (drop (pos + length (value_pattern value_name)) ln))"
proof -
  have "\<forall>l\<in>set (sec @ [] # later). str_find l (value_pattern value_name) = None"
    using assms(5,6) by (auto simp: value_pattern_def)
  from reg_value_loop_found [OF assms(3,4) this assms(7)]
  show ?thesis using assms(1,2) by (simp add: get_reg_value_def)
qed

theorem get_reg_value_scans_past_blank_line_witness:
  "get_reg_value [''/bottle/user.reg'' \<mapsto> explorer_first_reg] ''/bottle/user.reg''
     RegKeyVirtualDesktop ''Default'' = Inr ''1024x768''"
proof -
  let ?fs = "[''/bottle/user.reg'' \<mapsto> explorer_first_reg]"
  have "get_reg_value ?fs ''/bottle/user.reg'' RegKeyVirtualDesktop ''Default''
          = Inr (remove_quotes (drop (0 + length (value_pattern ''Default''))
                   (reg_entry ''Default'' ''1024x768'')))"
  proof (rule get_reg_value_scans_past_blank_line)
    show "?fs ''/bottle/user.reg'' = Some explorer_first_reg" by simp
    show "file_lines explorer_first_reg
            = [] @ section_header RegKeyVirtualDesktop # [reg_entry ''Desktop'' ''Default''] @ []
                # [section_header RegKeyVirtualDesktopResolution]
                @ reg_entry ''Default'' ''1024x768'' # []"
      by code_simp
    show "\<forall>l\<in>set ([] :: string list). \<not> starts_with l RegKeyVirtualDesktop" by simp
    show "starts_with (section_header RegKeyVirtualDesktop) RegKeyVirtualDesktop" by code_simp
    show "\<forall>l\<in>set [reg_entry ''Desktop'' ''Default'']. str_find l (value_pattern ''Default'') = None"
      by code_simp
    show "\<forall>l\<in>set [section_header RegKeyVirtualDesktopResolution].
            str_find l (value_pattern ''Default'') = None"
      by code_simp
    show "str_find (reg_entry ''Default'' ''1024x768'') (value_pattern ''Default'') = Some 0"
      by code_simp
  qed
  also have "\<dots> = Inr ''1024x768''" by code_simp
  finally show ?thesis .
qed

text \<open>
  C5, as amended: when the file cannot be opened, \<open>get_reg_value\<close>, \<open>get_reg_keys\<close>,
  \<open>get_reg_keys_data_filter_ignore\<close> and \<open>get_reg_meta_data\<close> fail with the runtime
  error whose message is the fixed text "Could not open registry file!"; the message
  does not name the file. When the file opens, the result is empty and there is no error
  in these cases: no line starts with the key (the three readers of a key); a line starts
  with the key and no line behind the first such line contains the pattern of the value
  (\<open>get_reg_value\<close>; lines in front of the key line do not count, and lines of later
  sections do); no line of the file contains the pattern of the meta value
  (\<open>get_reg_meta_data\<close>).
\<close>

theorem reg_reader_failure_modes:
  "(fs file_path = None \<longrightarrow>
      get_reg_value fs file_path key_name value_name
        = Inl (Runtime_error ''Could not open registry file!'')
      \<and> get_reg_keys fs file_path key_name
        = Inl (Runtime_error ''Could not open registry file!'')
      \<and> get_reg_keys_data_filter_ignore fs file_path key_name flt ign
        = Inl (Runtime_error ''Could not open registry file!'')
      \<and> get_reg_meta_data fs file_path meta_value_name
        = Inl (Runtime_error ''Could not open registry file!''))
   \<and> (fs file_path = Some content
        \<and> (\<forall>l\<in>set (file_lines content). \<not> starts_with l key_name) \<longrightarrow>
      get_reg_value fs file_path key_name value_name = Inr []
      \<and> get_reg_keys fs file_path key_name = Inr []
      \<and> get_reg_keys_data_filter_ignore fs file_path key_name flt ign = Inr [])
   \<and> (fs file_path = Some content
        \<and> file_lines content = pre @ hdr # rest
        \<and> (\<forall>l\<in>set pre. \<not> starts_with l key_name)
        \<and> starts_with hdr key_name
        \<and> (\<forall>l\<in>set rest. str_find l (value_pattern value_name) = None) \<longrightarrow>
      get_reg_value fs file_path key_name value_name = Inr [])
   \<and> (fs file_path = Some content
        \<and> (\<forall>l\<in>set (file_lines content). str_find l (meta_pattern meta_value_name) = None) \<longrightarrow>
      get_reg_meta_data fs file_path meta_value_name = Inr [])"
proof (intro conjI impI)
  assume "fs file_path = Some content
          \<and> (\<forall>l\<in>set (file_lines content). \<not> starts_with l key_name)"
  then have c: "fs file_path = Some content"
    and n: "\<forall>l\<in>set (stream_lines content). \<not> starts_with (fst l) key_name"
    by (simp_all add: file_lines_def)
  show "get_reg_keys fs file_path key_name = Inr []"
    using c reg_keys_loop_skip [OF n, of "[]" "[]"] by (simp add: get_reg_keys_def)
  show "get_reg_keys_data_filter_ignore fs file_path key_name flt ign = Inr []"
    using c reg_keys_data_loop_skip [OF n, of flt ign "[]" "[]"]
    by (simp add: get_reg_keys_data_filter_ignore_def)
next
  assume "fs file_path = Some content
          \<and> file_lines content = pre @ hdr # rest
          \<and> (\<forall>l\<in>set pre. \<not> starts_with l key_name)
          \<and> starts_with hdr key_name
          \<and> (\<forall>l\<in>set rest. str_find l (value_pattern value_name) = None)"
  then show "get_reg_value fs file_path key_name value_name = Inr []"
    by (simp add: get_reg_value_def reg_value_loop_skip reg_value_loop_absent)
qed (simp_all add: get_reg_value_def get_reg_keys_def get_reg_keys_data_filter_ignore_def
      get_reg_meta_data_def reg_value_loop_no_key reg_meta_loop_absent)

theorem reg_reader_failure_modes_witness:
  "get_reg_value Map.empty ''/bottle/system.reg'' RegKeyNameNT RegNameNTVersion
     = Inl (Runtime_error ''Could not open registry file!'')
   \<and> get_reg_keys Map.empty ''/bottle/system.reg'' RegKeyNameNT
     = Inl (Runtime_error ''Could not open registry file!'')
   \<and> get_reg_keys_data_filter_ignore Map.empty ''/bottle/system.reg'' RegKeyNameNT [] []
     = Inl (Runtime_error ''Could not open registry file!'')
   \<and> get_reg_meta_data Map.empty ''/bottle/system.reg'' ''arch''
     = Inl (Runtime_error ''Could not open registry file!'')
   \<and> get_reg_value [''/bottle/user.reg'' \<mapsto> explorer_first_reg] ''/bottle/user.reg''
       RegKeyWine RegNameWindowsVersion = Inr []
   \<and> get_reg_keys [''/bottle/user.reg'' \<mapsto> explorer_first_reg] ''/bottle/user.reg''
       RegKeyWine = Inr []
   \<and> get_reg_keys_data_filter_ignore [''/bottle/user.reg'' \<mapsto> explorer_first_reg]
       ''/bottle/user.reg'' RegKeyWine [] [] = Inr []
   \<and> get_reg_value [''/bottle/user.reg'' \<mapsto> explorer_first_reg] ''/bottle/user.reg''
       RegKeyVirtualDesktopResolution ''Desktop'' = Inr []
   \<and> get_reg_meta_data [''/bottle/user.reg'' \<mapsto> explorer_first_reg] ''/bottle/user.reg''
       ''arch'' = Inr []"
proof -
  let ?fs = "[''/bottle/user.reg'' \<mapsto> explorer_first_reg]"
  let ?pre = "[section_header RegKeyVirtualDesktop, reg_entry ''Desktop'' ''Default'', []]"
  let ?hdr = "section_header RegKeyVirtualDesktopResolution"
  let ?rest = "[reg_entry ''Default'' ''1024x768'']"
  have 1: "(Map.empty :: filesystem) ''/bottle/system.reg'' = None" by simp
  have 2: "?fs ''/bottle/user.reg'' = Some explorer_first_reg
           \<and> (\<forall>l\<in>set (file_lines explorer_first_reg). \<not> starts_with l RegKeyWine)"
    by code_simp
  have 3: "?fs ''/bottle/user.reg'' = Some explorer_first_reg
           \<and> file_lines explorer_first_reg = ?pre @ ?hdr # ?rest
           \<and> (\<forall>l\<in>set ?pre. \<not> starts_with l RegKeyVirtualDesktopResolution)
           \<and> starts_with ?hdr RegKeyVirtualDesktopResolution
           \<and> (\<forall>l\<in>set ?rest. str_find l (value_pattern ''Desktop'') = None)"
    by code_simp
  have 4: "?fs ''/bottle/user.reg'' = Some explorer_first_reg
           \<and> (\<forall>l\<in>set (file_lines explorer_first_reg). str_find l (meta_pattern ''arch'') = None)"
    by code_simp
  note closed = reg_reader_failure_modes
      [where fs = Map.empty and file_path = "''/bottle/system.reg''" and key_name = RegKeyNameNT
        and value_name = RegNameNTVersion and flt = "[]" and ign = "[]"
        and meta_value_name = "''arch''"]
  note no_key = reg_reader_failure_modes
      [where fs = ?fs and file_path = "''/bottle/user.reg''" and key_name = RegKeyWine
        and value_name = RegNameWindowsVersion and flt = "[]" and ign = "[]"
        and meta_value_name = "''arch''" and content = explorer_first_reg]
  note no_value = reg_reader_failure_modes
      [where fs = ?fs and file_path = "''/bottle/user.reg''"
        and key_name = RegKeyVirtualDesktopResolution and value_name = "''Desktop''"
        and content = explorer_first_reg and pre = ?pre and hdr = ?hdr and rest = ?rest]
  from closed 1 have a:
    "get_reg_value Map.empty ''/bottle/system.reg'' RegKeyNameNT RegNameNTVersion
       = Inl (Runtime_error ''Could not open registry file!'')
     \<and> get_reg_keys Map.empty ''/bottle/system.reg'' RegKeyNameNT
       = Inl (Runtime_error ''Could not open registry file!'')
     \<and> get_reg_keys_data_filter_ignore Map.empty ''/bottle/system.reg'' RegKeyNameNT [] []
       = Inl (Runtime_error ''Could not open registry file!'')
     \<and> get_reg_meta_data Map.empty ''/bottle/system.reg'' ''arch''
       = Inl (Runtime_error ''Could not open registry file!'')"
    by blast
  from no_key 2 have b:
    "get_reg_value ?fs ''/bottle/user.reg'' RegKeyWine RegNameWindowsVersion = Inr []
     \<and> get_reg_keys ?fs ''/bottle/user.reg'' RegKeyWine = Inr []
     \<and> get_reg_keys_data_filter_ignore ?fs ''/bottle/user.reg'' RegKeyWine [] [] = Inr []"
    by blast
  from no_value 3 have c:
    "get_reg_value ?fs ''/bottle/user.reg'' RegKeyVirtualDesktopResolution ''Desktop'' = Inr []"
    by blast
  from no_key 4 have d: "get_reg_meta_data ?fs ''/bottle/user.reg'' ''arch'' = Inr []"
    by blast
  from a b c d show ?thesis by simp
qed

theorem reg_reader_error_message_counterexample:
  "get_reg_value Map.empty ''/bottle/system.reg'' RegKeyNameNT RegNameNTVersion
     = Inl (Runtime_error ''Could not open registry file!'')
   \<and> get_reg_keys Map.empty ''/bottle/system.reg'' RegKeyNameNT
     = Inl (Runtime_error ''Could not open registry file!'')
   \<and> get_reg_meta_data Map.empty ''/bottle/system.reg'' ''arch''
     = Inl (Runtime_error ''Could not open registry file!'')
   \<and> str_find ''Could not open registry file!'' ''/bottle/system.reg'' = None"
  by code_simp

text \<open>
  C10, as amended: the section of a key is found by a prefix test in \<open>get_reg_value\<close>,
  \<open>get_reg_keys\<close> and \<open>get_reg_keys_data_filter_ignore\<close>: the first line that starts
  with the key string, whatever follows it on the line, switches the loop to the matched
  state, and the lines behind it are read as the section. A key written without its
  closing bracket therefore matches the header of a longer key that comes first; a key
  written with its closing bracket does not.
\<close>

theorem key_matching_is_prefix_based:
  assumes "fs file_path = Some content"
    and "stream_lines content = pre @ (key_name @ suffix, eof) # rest"
    and "\<forall>l\<in>set pre. \<not> starts_with (fst l) key_name"
  shows "get_reg_value fs file_path key_name value_name
           = Inr (reg_value_loop key_name (value_pattern value_name) True (map fst rest))
         \<and> get_reg_keys fs file_path key_name = Inr (reg_keys_loop key_name True rest [])
         \<and> get_reg_keys_data_filter_ignore fs file_path key_name flt ign
           = Inr (reg_keys_data_loop key_name flt ign True rest [])"
proof -
  have "\<forall>l\<in>set (map fst pre). \<not> starts_with l key_name"
    using assms(3) by simp
  from reg_value_loop_skip [OF this]
  show ?thesis
    using assms
    by (simp add: get_reg_value_def get_reg_keys_def get_reg_keys_data_filter_ignore_def
        file_lines_def reg_keys_loop_skip reg_keys_data_loop_skip starts_with_append)
qed

theorem key_matching_is_prefix_based_witness:
  "get_reg_value [''/bottle/user.reg'' \<mapsto> desktops_first_reg] ''/bottle/user.reg''
     explorer_key_prefix ''Default'' = Inr ''1024x768''
   \<and> get_reg_keys [''/bottle/user.reg'' \<mapsto> desktops_first_reg] ''/bottle/user.reg''
     explorer_key_prefix = Inr [reg_entry ''Default'' ''1024x768'']
   \<and> get_reg_keys_data_filter_ignore [''/bottle/user.reg'' \<mapsto> desktops_first_reg]
     ''/bottle/user.reg'' explorer_key_prefix [] [] = Inr [''1024x768'']"
proof -
  let ?fs = "[''/bottle/user.reg'' \<mapsto> desktops_first_reg]"
  let ?rest = "[(reg_entry ''Default'' ''1024x768'', False), ([], False),
                (section_header RegKeyVirtualDesktop, False),
                (reg_entry ''Desktop'' ''Default'', False)]"
  have "get_reg_value ?fs ''/bottle/user.reg'' explorer_key_prefix ''Default''
          = Inr (reg_value_loop explorer_key_prefix (value_pattern ''Default'') True (map fst ?rest))
        \<and> get_reg_keys ?fs ''/bottle/user.reg'' explorer_key_prefix
          = Inr (reg_keys_loop explorer_key_prefix True ?rest [])
        \<and> get_reg_keys_data_filter_ignore ?fs ''/bottle/user.reg'' explorer_key_prefix [] []
          = Inr (reg_keys_data_loop explorer_key_prefix [] [] True ?rest [])"
  proof (rule key_matching_is_prefix_based [where pre = "[]" and content = desktops_first_reg
        and suffix = "SEP @ ''Desktops] 1600000000''" and eof = False])
    show "?fs ''/bottle/user.reg'' = Some desktops_first_reg" by simp
    show "stream_lines desktops_first_reg
            = [] @ (explorer_key_prefix @ SEP @ ''Desktops] 1600000000'', False) # ?rest"
      by code_simp
    show "\<forall>l\<in>set ([] :: (string \<times> bool) list). \<not> starts_with (fst l) explorer_key_prefix"
      by simp
  qed
  moreover have "reg_value_loop explorer_key_prefix (value_pattern ''Default'') True (map fst ?rest)
                   = ''1024x768''"
    by code_simp
  moreover have "reg_keys_loop explorer_key_prefix True ?rest [] = [reg_entry ''Default'' ''1024x768'']"
    by code_simp
  moreover have "reg_keys_data_loop explorer_key_prefix [] [] True ?rest [] = [''1024x768'']"
    by code_simp
  ultimately show ?thesis by simp
qed

theorem key_with_bracket_counterexample:
  "\<not> starts_with (section_header RegKeyVirtualDesktopResolution) RegKeyVirtualDesktop
   \<and> get_reg_value [''/bottle/user.reg'' \<mapsto> desktops_first_reg] ''/bottle/user.reg''
       RegKeyVirtualDesktop ''Default'' = Inr []
   \<and> get_reg_keys [''/bottle/user.reg'' \<mapsto> desktops_first_reg] ''/bottle/user.reg''
       RegKeyVirtualDesktop = Inr [reg_entry ''Desktop'' ''Default'']
   \<and> get_reg_keys_data_filter_ignore [''/bottle/user.reg'' \<mapsto> desktops_first_reg]
       ''/bottle/user.reg'' RegKeyVirtualDesktop [] [] = Inr [''Default'']"
  by code_simp


section \<open>The directory scan\<close>

lemma read_names_loop_filter:
  "[] \<notin> set names \<Longrightarrow>
   read_names_loop env dir_path names acc
     = acc @ filter (is_dir env) (map (build_filename env dir_path) names)"
  by (induction names arbitrary: acc) auto

lemma mset_insert_sorted: "mset (insert_sorted cmp x ys) = add_mset x (mset ys)"
  by (induction ys) auto

lemma mset_std_sort: "mset (std_sort cmp xs) = mset xs"
  by (induction xs) (auto simp: std_sort_def mset_insert_sorted)

lemma set_insert_sorted: "set (insert_sorted cmp x ys) = insert x (set ys)"
  using mset_insert_sorted [of cmp x ys, THEN arg_cong, of set_mset] by simp

lemma lexicographical_compare_key:
  fixes f :: "'a \<Rightarrow> nat"
  shows "lexicographical_compare (\<lambda>x y. f x < f y) a b \<longleftrightarrow> map f a < map f b"
  by (induction "\<lambda>x y. f x < f y" a b rule: lexicographical_compare.induct) auto

lemma case_insensitive_compare_key:
  "case_insensitive_compare a b \<longleftrightarrow> map toupper a < map toupper b"
proof -
  have less: "case_insensitive_less = (\<lambda>x y. toupper x < toupper y)"
    by (intro ext) (simp add: case_insensitive_less_def)
  show ?thesis
    unfolding case_insensitive_compare_def less by (rule lexicographical_compare_key)
qed

lemma not_case_insensitive_compare:
  "\<not> case_insensitive_compare b a \<longleftrightarrow> map toupper a \<le> map toupper b"
  by (auto simp: case_insensitive_compare_key)

lemma sorted_insert_sorted:
  "sorted_wrt (\<lambda>a b. \<not> case_insensitive_compare b a) ys \<Longrightarrow>
   sorted_wrt (\<lambda>a b. \<not> case_insensitive_compare b a) (insert_sorted case_insensitive_compare x ys)"
proof (induction ys)
  case Nil
  show ?case by simp
next
  case (Cons y ys)
  show ?case
  proof (cases "case_insensitive_compare x y")
    case True
    then have "map toupper x \<le> map toupper y"
      by (simp add: case_insensitive_compare_key)
    moreover have "\<forall>z\<in>set ys. map toupper y \<le> map toupper z"
      using Cons.prems by (simp add: not_case_insensitive_compare)
    ultimately have "\<forall>z\<in>set (y # ys). map toupper x \<le> map toupper z"
      by auto
    then show ?thesis
      using True Cons.prems by (simp add: not_case_insensitive_compare)
  next
    case False
    then show ?thesis
      using Cons by (auto simp: set_insert_sorted)
  qed
qed

lemma sorted_std_sort:
  "sorted_wrt (\<lambda>a b. \<not> case_insensitive_compare b a) (std_sort case_insensitive_compare xs)"
proof (induction xs)
  case Nil
  show ?case by (simp add: std_sort_def)
next
  case (Cons x xs)
  then show ?case
    using sorted_insert_sorted [of "std_sort case_insensitive_compare xs" x]
    by (simp add: std_sort_def)
qed

text \<open>
  C8: for a directory that can be read, \<open>get_bottles_paths\<close> returns the immediate
  sub-directories of it, each once per entry and nothing that is not a directory, sorted
  case-insensitively by their full path (no path stands before one it is less than in
  \<open>case_insensitive_compare\<close>), and behind them, as the last element, the default bottle
  path when the flag is set and that directory exists; otherwise nothing is appended.
\<close>

theorem get_bottles_paths_sorted:
  assumes "dir_entries env dir_path = Some names" and "[] \<notin> set names"
  shows "\<exists>dirs.
           get_bottles_paths env dir_path display_default_wine_machine
             = Inr (dirs @ (if display_default_wine_machine \<and> is_dir env (DefaultBottleWineDir env)
                            then [DefaultBottleWineDir env] else []))
           \<and> mset dirs = mset (filter (is_dir env) (map (build_filename env dir_path) names))
           \<and> sorted_wrt (\<lambda>a b. \<not> case_insensitive_compare b a) dirs"
proof (intro exI conjI)
  let ?dirs = "std_sort case_insensitive_compare
                 (filter (is_dir env) (map (build_filename env dir_path) names))"
  show "get_bottles_paths env dir_path display_default_wine_machine
          = Inr (?dirs @ (if display_default_wine_machine \<and> is_dir env (DefaultBottleWineDir env)
                          then [DefaultBottleWineDir env] else []))"
    using assms read_names_loop_filter [OF assms(2), of env dir_path "[]"]
    by (simp add: get_bottles_paths_def dir_exists_def Let_def)
  show "mset ?dirs = mset (filter (is_dir env) (map (build_filename env dir_path) names))"
    by (rule mset_std_sort)
  show "sorted_wrt (\<lambda>a b. \<not> case_insensitive_compare b a) ?dirs"
    by (rule sorted_std_sort)
qed

theorem get_bottles_paths_sorted_witness:
  "get_bottles_paths bottle_directory ''/prefixes'' True
     = Inr [''/prefixes/alpha'', ''/prefixes/Beta'', ''/prefixes/Zeta'', ''/home/user/.wine'']
   \<and> (\<exists>dirs.
         get_bottles_paths bottle_directory ''/prefixes'' True
           = Inr (dirs @ (if True \<and> is_dir bottle_directory (DefaultBottleWineDir bottle_directory)
                          then [DefaultBottleWineDir bottle_directory] else []))
         \<and> mset dirs = mset (filter (is_dir bottle_directory)
              (map (build_filename bottle_directory ''/prefixes'')
                 [''Zeta'', ''alpha'', ''notes.txt'', ''Beta'']))
         \<and> sorted_wrt (\<lambda>a b. \<not> case_insensitive_compare b a) dirs)"
proof
  show "get_bottles_paths bottle_directory ''/prefixes'' True
     = Inr [''/prefixes/alpha'', ''/prefixes/Beta'', ''/prefixes/Zeta'', ''/home/user/.wine'']"
    by code_simp
next
  have 1: "dir_entries bottle_directory ''/prefixes'' = Some [''Zeta'', ''alpha'', ''notes.txt'', ''Beta'']"
    by (simp add: bottle_directory_def)
  have 2: "[] \<notin> set [''Zeta'', ''alpha'', ''notes.txt'', ''Beta'']"
    by simp
  from get_bottles_paths_sorted [OF 1 2, of True]
  show "\<exists>dirs.
         get_bottles_paths bottle_directory ''/prefixes'' True
           = Inr (dirs @ (if True \<and> is_dir bottle_directory (DefaultBottleWineDir bottle_directory)
                          then [DefaultBottleWineDir bottle_directory] else []))
         \<and> mset dirs = mset (filter (is_dir bottle_directory)
              (map (build_filename bottle_directory ''/prefixes'')
                 [''Zeta'', ''alpha'', ''notes.txt'', ''Beta'']))
         \<and> sorted_wrt (\<lambda>a b. \<not> case_insensitive_compare b a) dirs" .
qed

end
